theory Spec2Isabelle
  imports Main "HOL-Library.Word" "HOL-Library.Sublist"
begin

unbundle bit_operations_syntax

section \<open>Values shared by the link layer\<close>

text \<open>
  Bytes are 8-bit words. Frames, encryption sessions and handshake states belong to
  packages outside \<^verbatim>\<open>peering/link.go\<close>; the link only passes them around, so they are
  handles here, and what the link asks of them is a field of the record \<open>env\<close> below.
  A \<^verbatim>\<open>frame.Frame\<close> is an interface value: \<open>None\<close> is Go's \<^verbatim>\<open>nil\<close>.
\<close>

type_synonym byte = "8 word"
type_synonym frame = nat
type_synonym session = nat
type_synonym ip = "byte list"
type_synonym SwitchLabel = nat

text \<open>
  Go errors. \<open>Errorf fmt ns es\<close> is \<^verbatim>\<open>fmt.Errorf(fmt, ns..., es...)\<close> where \<open>ns\<close> are the
  integer arguments and \<open>es\<close> the errors wrapped with \<^verbatim>\<open>%w\<close>; \<^verbatim>\<open>errors.New(s)\<close> is
  \<open>Errorf s [] []\<close>. \<open>ErrOther n\<close> is an error made by a collaborator or by the
  operating system.
\<close>

datatype error =
    ErrNetworkReadError
  | ErrNetworkWriteError
  | EOF
  | ErrOther nat
  | Errorf string "nat list" "error list"

fun errors_Is :: "error \<Rightarrow> error \<Rightarrow> bool" where
  "errors_Is (Errorf f ns es) t = (Errorf f ns es = t \<or> list_ex (\<lambda>e. errors_Is e t) es)"
| "errors_Is e t = (e = t)"

text \<open>
  What a call of the link gives back: a value, an error, a run-time panic, or nothing
  because it never returns.
\<close>

datatype 'a res = Ok 'a | Err error | Panic | Hangs

text \<open>A buffered channel: the items queued, oldest first, and the capacity.\<close>

record 'a chan =
  chan_buf :: "'a list"
  chan_cap :: nat

definition make_chan :: "nat \<Rightarrow> 'a chan" where
  "make_chan n = \<lparr>chan_buf = [], chan_cap = n\<rparr>"

text \<open>
  \<^verbatim>\<open>select { case c <- x: default: }\<close>: the send proceeds when the buffer has room,
  otherwise the default branch runs and nothing happens.
\<close>

definition offer :: "'a \<Rightarrow> 'a chan \<Rightarrow> 'a chan" where
  "offer x c = (if length (chan_buf c) < chan_cap c then c\<lparr>chan_buf := chan_buf c @ [x]\<rparr> else c)"

section \<open>Go's \<^verbatim>\<open>net.IP\<close> address classes\<close>

text \<open>
  \<^verbatim>\<open>getFallbackLatency\<close> asks the standard library for the class of the remote IP. These are
  the methods of \<^verbatim>\<open>net.IP\<close> (a byte slice of length 4 or 16) as package \<^verbatim>\<open>net\<close> defines them.
\<close>

definition v4InV6Prefix :: ip where
  "v4InV6Prefix = [0, 0, 0, 0, 0, 0, 0, 0, 0, 0, 0xff, 0xff]"

definition IPv4 :: "byte \<Rightarrow> byte \<Rightarrow> byte \<Rightarrow> byte \<Rightarrow> ip" where
  "IPv4 a b c d = v4InV6Prefix @ [a, b, c, d]"

definition IPv4bcast :: ip where "IPv4bcast = IPv4 255 255 255 255"
definition IPv4zero :: ip where "IPv4zero = IPv4 0 0 0 0"
definition IPv6unspecified :: ip where
  "IPv6unspecified = [0, 0, 0, 0, 0, 0, 0, 0, 0, 0, 0, 0, 0, 0, 0, 0]"
definition IPv6loopback :: ip where
  "IPv6loopback = [0, 0, 0, 0, 0, 0, 0, 0, 0, 0, 0, 0, 0, 0, 0, 1]"

definition To4 :: "ip \<Rightarrow> ip option" where
  "To4 a =
     (if length a = 4 then Some a
      else if length a = 16 \<and> list_all (\<lambda>b. b = 0) (take 10 a) \<and> a ! 10 = 0xff \<and> a ! 11 = 0xff
        then Some (drop 12 a)
      else None)"

definition ip_Equal :: "ip \<Rightarrow> ip \<Rightarrow> bool" where
  "ip_Equal a x =
     (if length a = length x then a = x
      else if length a = 4 \<and> length x = 16 then take 12 x = v4InV6Prefix \<and> a = drop 12 x
      else if length a = 16 \<and> length x = 4 then take 12 a = v4InV6Prefix \<and> drop 12 a = x
      else False)"

definition IsUnspecified :: "ip \<Rightarrow> bool" where
  "IsUnspecified a = (ip_Equal a IPv4zero \<or> ip_Equal a IPv6unspecified)"

definition IsLoopback :: "ip \<Rightarrow> bool" where
  "IsLoopback a = (case To4 a of Some ip4 \<Rightarrow> ip4 ! 0 = 127 | None \<Rightarrow> ip_Equal a IPv6loopback)"

definition IsMulticast :: "ip \<Rightarrow> bool" where
  "IsMulticast a =
     (case To4 a of Some ip4 \<Rightarrow> ip4 ! 0 AND 0xf0 = 0xe0
      | None \<Rightarrow> length a = 16 \<and> a ! 0 = 0xff)"

definition IsLinkLocalUnicast :: "ip \<Rightarrow> bool" where
  "IsLinkLocalUnicast a =
     (case To4 a of Some ip4 \<Rightarrow> ip4 ! 0 = 169 \<and> ip4 ! 1 = 254
      | None \<Rightarrow> length a = 16 \<and> a ! 0 = 0xfe \<and> a ! 1 AND 0xc0 = 0x80)"

definition IsGlobalUnicast :: "ip \<Rightarrow> bool" where
  "IsGlobalUnicast a =
     ((length a = 4 \<or> length a = 16) \<and> \<not> ip_Equal a IPv4bcast \<and> \<not> IsUnspecified a \<and>
      \<not> IsLoopback a \<and> \<not> IsMulticast a \<and> \<not> IsLinkLocalUnicast a)"

definition IsPrivate :: "ip \<Rightarrow> bool" where
  "IsPrivate a =
     (case To4 a of
        Some ip4 \<Rightarrow>
          ip4 ! 0 = 10 \<or> (ip4 ! 0 = 172 \<and> ip4 ! 1 AND 0xf0 = 16) \<or> (ip4 ! 0 = 192 \<and> ip4 ! 1 = 168)
      | None \<Rightarrow> length a = 16 \<and> a ! 0 AND 0xfe = 0xfc)"

section \<open>The connection\<close>

text \<open>
  \<^verbatim>\<open>net.Addr\<close> is an interface; the link distinguishes the three address types that carry
  an IP from every other one (ports and zones play no part).
\<close>

datatype net_Addr = TCPAddr ip | UDPAddr ip | IPAddr ip | OtherAddr

text \<open>
  What the peer and the operating system will do is a script the connection carries: the
  answers of the coming \<^verbatim>\<open>Read\<close> calls (a chunk of bytes that has arrived, or a failure) and
  of the coming \<^verbatim>\<open>Write\<close> calls (how many bytes the call accepts, or a failure). A script
  that has run out is a stream the peer has ended: \<^verbatim>\<open>Read\<close> reports \<^verbatim>\<open>io.EOF\<close>, \<^verbatim>\<open>Write\<close>
  fails. \<open>conn_sent\<close> records the bytes put on the wire.
\<close>

datatype read_event = Chunk "byte list" | ReadFail error
datatype write_event = Accept nat | WriteFail error

record conn =
  conn_reads :: "read_event list"
  conn_writes :: "write_event list"
  conn_sent :: "byte list"
  conn_closed :: bool
  conn_remote :: net_Addr

definition ErrClosed :: error where
  "ErrClosed = Errorf ''use of closed network connection'' [] []"

definition ErrBrokenPipe :: error where
  "ErrBrokenPipe = Errorf ''broken pipe'' [] []"

text \<open>
  \<^verbatim>\<open>conn.Read(p)\<close> with \<open>k = len(p)\<close>: at most \<open>k\<close> bytes of the chunk at the head of the
  script; what does not fit stays for the next call. A read into an empty slice returns
  at once with no byte and no error, as Go's network connections do.
\<close>

definition conn_Read :: "conn \<Rightarrow> nat \<Rightarrow> (error + byte list) \<times> conn" where
  "conn_Read c k =
     (if conn_closed c then (Inl ErrClosed, c)
      else if k = 0 then (Inr [], c)
      else case conn_reads c of
        [] \<Rightarrow> (Inl EOF, c)
      | ReadFail e # es \<Rightarrow> (Inl e, c\<lparr>conn_reads := es\<rparr>)
      | Chunk bs # es \<Rightarrow>
          (Inr (take k bs),
           c\<lparr>conn_reads := (if length bs \<le> k then es else Chunk (drop k bs) # es)\<rparr>))"

text \<open>\<^verbatim>\<open>conn.Write(p)\<close>: the number of bytes written, which are the first of \<open>p\<close>.\<close>

definition conn_Write :: "conn \<Rightarrow> byte list \<Rightarrow> (error + nat) \<times> conn" where
  "conn_Write c p =
     (if conn_closed c then (Inl ErrClosed, c)
      else case conn_writes c of
        [] \<Rightarrow> (Inl ErrBrokenPipe, c)
      | WriteFail e # es \<Rightarrow> (Inl e, c\<lparr>conn_writes := es\<rparr>)
      | Accept n # es \<Rightarrow>
          (Inr (min n (length p)), c\<lparr>conn_writes := es, conn_sent := conn_sent c @ take n p\<rparr>))"

definition conn_Close :: "conn \<Rightarrow> conn" where
  "conn_Close c = c\<lparr>conn_closed := True\<rparr>"

section \<open>The link and what surrounds it\<close>

text \<open>
  The fields of \<^verbatim>\<open>LinkBase\<close> (the peering URL, used for log lines only, is left out),
  followed by the state of the collaborators the link's methods act on: the frame pool
  (\<open>pool_returned\<close>: the frames handed back with \<^verbatim>\<open>ReturnToPool\<close>, in order), the peering
  frames whose receiving link was set to this link with \<^verbatim>\<open>SetRecvLink\<close> (\<open>recv_frames\<close>,
  in order), the peering
  registry (\<open>linksByPeer\<close>, \<open>linksByLabel\<close>, holding link identities; \<open>linkID\<close> is
  this link's), the workers started through the manager, and the number of draws taken
  from the switch-label random source.
\<close>

record world =
  conn :: conn
  encSession :: "session option"
  frameSize :: nat
  sendQueuePrio :: "frame option chan"
  sendQueueRegl :: "frame option chan"
  peer :: ip
  outgoing :: bool
  latency :: nat
  switchLabel :: SwitchLabel
  closing :: bool
  linkID :: nat
  pool_returned :: "frame list"
  recv_frames :: "frame list"
  linksByPeer :: "ip \<rightharpoonup> nat"
  linksByLabel :: "SwitchLabel \<rightharpoonup> nat"
  workers :: "string list"
  rngDraws :: nat

subsection \<open>Fallback latency and construction\<close>

definition getFallbackLatency :: "net_Addr \<Rightarrow> nat" where
  "getFallbackLatency addr =
     (case (case addr of TCPAddr v \<Rightarrow> Some v | UDPAddr v \<Rightarrow> Some v | IPAddr v \<Rightarrow> Some v
              | OtherAddr \<Rightarrow> None) of
        None \<Rightarrow> 20
      | Some remoteIP \<Rightarrow>
          (if IsGlobalUnicast remoteIP then 20
           else if IsPrivate remoteIP then 5
           else 10))"

text \<open>
  \<^verbatim>\<open>newLinkBase\<close>. \<^verbatim>\<open>config.CalculateExpectedFrameSize\<close> is not part of the link and is the
  parameter \<open>calcFrameSize\<close>; the fields the constructor leaves at their zero value are
  zero here; \<open>lid\<close> and the three registry and pool arguments are the surroundings the
  new link is placed in.
\<close>

definition newLinkBase ::
  "(net_Addr \<Rightarrow> nat) \<Rightarrow> conn \<Rightarrow> bool \<Rightarrow> nat \<Rightarrow> (ip \<rightharpoonup> nat) \<Rightarrow> (SwitchLabel \<rightharpoonup> nat) \<Rightarrow> world" where
  "newLinkBase calcFrameSize c out lid byPeer byLabel =
     \<lparr>conn = c, encSession = None, frameSize = calcFrameSize (conn_remote c),
      sendQueuePrio = make_chan 100, sendQueueRegl = make_chan 1000,
      peer = [], outgoing = out, latency = getFallbackLatency (conn_remote c),
      switchLabel = 0, closing = False, linkID = lid, pool_returned = [], recv_frames = [],
      linksByPeer = byPeer, linksByLabel = byLabel, workers = [], rngDraws = 0\<rparr>"

subsection \<open>Sending, flow control, closing\<close>

definition SendPriority :: "world \<Rightarrow> frame option \<Rightarrow> world \<times> error option" where
  "SendPriority w f = (w\<lparr>sendQueuePrio := offer f (sendQueuePrio w)\<rparr>, None)"

definition Send :: "world \<Rightarrow> frame option \<Rightarrow> world \<times> error option" where
  "Send w f = (w\<lparr>sendQueueRegl := offer f (sendQueueRegl w)\<rparr>, None)"

datatype FlowControlFlag = FlowControlFlagDecreaseFlow | FlowControlFlagHoldFlow
  | FlowControlFlagIncreaseFlow

text \<open>Go's integer division panics on a zero divisor (a queue without capacity).\<close>

definition FlowControlIndicator :: "world \<Rightarrow> FlowControlFlag res" where
  "FlowControlIndicator w =
     (if chan_cap (sendQueueRegl w) = 0 then Panic
      else let percent = length (chan_buf (sendQueueRegl w)) * 100 div chan_cap (sendQueueRegl w)
           in if percent \<ge> 70 then Ok FlowControlFlagDecreaseFlow
              else if percent \<ge> 30 then Ok FlowControlFlagHoldFlow
              else Ok FlowControlFlagIncreaseFlow)"

definition IsClosing :: "world \<Rightarrow> bool" where
  "IsClosing w = closing w"

text \<open>
  Modelled from the spec: \<^verbatim>\<open>Peering.RemoveLink\<close>, whose code is not in the files of the
  link. The spec: a link is removed from both mappings when closed, and removal is
  idempotent. An entry is removed when it is this link's.
\<close>

definition RemoveLink :: "world \<Rightarrow> world" where
  "RemoveLink w =
     w\<lparr>linksByPeer := (\<lambda>k. if linksByPeer w k = Some (linkID w) then None else linksByPeer w k),
       linksByLabel := (\<lambda>k. if linksByLabel w k = Some (linkID w) then None else linksByLabel w k)\<rparr>"

text \<open>
  \<^verbatim>\<open>Close\<close>: the compare-and-swap on \<open>closing\<close> lets the first call through only. The log
  callback has no effect on the state.
\<close>

definition Close :: "world \<Rightarrow> world" where
  "Close w =
     (if \<not> closing w
      then (let w1 = w\<lparr>closing := True\<rparr>; w2 = RemoveLink w1 in w2\<lparr>conn := conn_Close (conn w2)\<rparr>)
      else w)"

section \<open>Reading and writing on the wire\<close>

text \<open>
  What the link asks of the packages around it. None of their code is part of the link,
  so each is a parameter: the frame API, the link-frame codec, the frame builder, the
  handshake state machine, the switch-label helpers of package \<^verbatim>\<open>m\<close> and the constants
  \<^verbatim>\<open>FrameOffset\<close> and \<^verbatim>\<open>FrameOverhead\<close>. \<open>getRandomSwitchLabel n short\<close> is what the
  \<open>n\<close>-th call of \<^verbatim>\<open>m.GetRandomSwitchLabel(short)\<close> returns.
\<close>

type_synonym peeringRequestState = nat

record env =
  FrameOffset :: nat
  FrameOverhead :: nat
  frameDataWithMargins :: "frame \<Rightarrow> nat \<Rightarrow> nat \<Rightarrow> error + byte list"
  linkFrameSeal :: "session \<Rightarrow> byte list \<Rightarrow> error + byte list"
  linkFrameUnseal :: "session \<Rightarrow> byte list \<Rightarrow> error + byte list"
  linkData :: "byte list \<Rightarrow> byte list"
  getPooledSlice :: "nat \<Rightarrow> byte list"
  parseFrame :: "byte list \<Rightarrow> nat \<Rightarrow> error + frame"
  createPeeringRequest :: "bool \<Rightarrow> error + peeringRequestState \<times> frame"
  stateHandle :: "peeringRequestState \<Rightarrow> frame \<Rightarrow> peeringRequestState \<times> frame option \<times> error option"
  stateFinalize :: "peeringRequestState \<Rightarrow> session option \<times> error option"
  sessionAddressIP :: "peeringRequestState \<Rightarrow> ip"
  deriveSwitchLabelFromIP :: "ip \<Rightarrow> SwitchLabel \<times> bool"
  routingAddressPrefixContains :: "ip \<Rightarrow> bool"
  getRandomSwitchLabel :: "nat \<Rightarrow> bool \<Rightarrow> SwitchLabel \<times> bool"

text \<open>
  Modelled from the spec: \<^verbatim>\<open>m.GetUint16\<close> and \<^verbatim>\<open>m.PutUint16\<close>, whose code is in package
  \<^verbatim>\<open>m\<close>. The spec's wire format: the length prefix is a 2-byte big-endian integer.
\<close>

definition GetUint16 :: "byte list \<Rightarrow> nat" where
  "GetUint16 b = unat (b ! 0) * 256 + unat (b ! 1)"

definition PutUint16 :: "byte list \<Rightarrow> nat \<Rightarrow> byte list" where
  "PutUint16 b v = [of_nat (v div 256), of_nat (v mod 256)] @ drop 2 b"

text \<open>Copying \<open>bs\<close> into the buffer \<open>to\<close> from index \<open>off\<close> on.\<close>

definition copy_into :: "byte list \<Rightarrow> nat \<Rightarrow> byte list \<Rightarrow> byte list" where
  "copy_into to off bs = take off to @ bs @ drop (off + length bs) to"

fun ev_size :: "read_event \<Rightarrow> nat" where
  "ev_size (Chunk bs) = Suc (length bs)"
| "ev_size (ReadFail e) = 1"

definition conn_size :: "conn \<Rightarrow> nat" where
  "conn_size c = sum_list (map ev_size (conn_reads c))"

lemma conn_Read_size:
  "conn_Read c k = (Inr bs, c') \<Longrightarrow> 0 < k \<Longrightarrow> conn_size c' < conn_size c"
  by (auto simp: conn_Read_def conn_size_def split: if_splits list.splits read_event.splits)

lemma conn_Write_size:
  "conn_Write c p = (Inr n, c') \<Longrightarrow> length (conn_writes c') < length (conn_writes c)"
  by (auto simp: conn_Write_def split: if_splits list.splits write_event.splits)

datatype loop_end = Finished | Failed error | Stuck

text \<open>
  The loops \<^verbatim>\<open>for read < 2 { conn.Read(to[read:2]) }\<close> and
  \<^verbatim>\<open>for read < dataLen { conn.Read(to[read:dataLen]) }\<close> of \<^verbatim>\<open>readLengthAndData\<close>, which
  differ in the bound only.
\<close>

function readUpTo :: "conn \<Rightarrow> byte list \<Rightarrow> nat \<Rightarrow> nat \<Rightarrow> loop_end \<times> byte list \<times> conn" where
  "readUpTo c to read limit =
     (if read < limit then
        (case conn_Read c (limit - read) of
           (Inl err, c') \<Rightarrow> (Failed (Errorf ''%w: %w'' [] [ErrNetworkReadError, err]), to, c')
         | (Inr bs, c') \<Rightarrow> readUpTo c' (copy_into to read bs) (read + length bs) limit)
      else (Finished, to, c))"
  by pat_completeness auto
termination
  by (relation "measure (\<lambda>(c, to, read, limit). conn_size c)")
    (auto dest: conn_Read_size [OF sym])

lemma discardUpTo_step:
  assumes r: "(Inr bs, c') = conn_Read c (min (length to) (dataLen - read))"
    and "read < dataLen" and k: "to \<noteq> [] \<or> conn_closed c"
  shows "conn_size c' < conn_size c"
proof -
  from r have "\<not> conn_closed c" by (auto simp: conn_Read_def split: if_splits)
  with k \<open>read < dataLen\<close> have "0 < min (length to) (dataLen - read)" by simp
  with r [symmetric] show ?thesis by (rule conn_Read_size)
qed

text \<open>
  The loop that reads and discards a record too long for the buffer:
  \<^verbatim>\<open>for read < dataLen { conn.Read(to[:min(len(to), dataLen-read)]) }\<close>. With an empty buffer
  on an open connection every read is a read of no bytes and the loop cannot advance.
\<close>

function discardUpTo :: "conn \<Rightarrow> byte list \<Rightarrow> nat \<Rightarrow> nat \<Rightarrow> loop_end \<times> byte list \<times> conn" where
  "discardUpTo c to read dataLen =
     (if read < dataLen then
        (if to = [] \<and> \<not> conn_closed c then (Stuck, to, c)
         else case conn_Read c (min (length to) (dataLen - read)) of
           (Inl err, c') \<Rightarrow> (Failed (Errorf ''%w: %w'' [] [ErrNetworkReadError, err]), to, c')
         | (Inr bs, c') \<Rightarrow> discardUpTo c' (copy_into to 0 bs) (read + length bs) dataLen)
      else (Finished, to, c))"
  by pat_completeness auto
termination
  by (relation "measure (\<lambda>(c, to, read, dataLen). conn_size c)")
    (auto dest: discardUpTo_step)

declare readUpTo.simps [simp del] discardUpTo.simps [simp del]

text \<open>
  \<^verbatim>\<open>readLengthAndData\<close>: the result, the buffer and the connection afterwards. The buffer
  is a slice whose capacity is its length, so \<^verbatim>\<open>to[read:2]\<close> panics on a buffer shorter
  than two bytes.
\<close>

definition readLengthAndData :: "conn \<Rightarrow> byte list \<Rightarrow> byte list res \<times> byte list \<times> conn" where
  "readLengthAndData c to =
     (if length to < 2 then (Panic, to, c)
      else case readUpTo c to 0 2 of
        (Failed err, to1, c1) \<Rightarrow> (Err err, to1, c1)
      | (Stuck, to1, c1) \<Rightarrow> (Hangs, to1, c1)
      | (Finished, to1, c1) \<Rightarrow>
          (let dataLen = GetUint16 (take 2 to1) in
           if dataLen \<le> 3 then (Err (Errorf ''invalid data length of %d'' [dataLen] []), to1, c1)
           else if dataLen > length to1 then
             (case discardUpTo c1 to1 2 dataLen of
                (Failed err, to2, c2) \<Rightarrow> (Err err, to2, c2)
              | (Stuck, to2, c2) \<Rightarrow> (Hangs, to2, c2)
              | (Finished, to2, c2) \<Rightarrow> (Err (Errorf ''frame too big for slice'' [] []), to2, c2))
           else
             (case readUpTo c1 to1 2 dataLen of
                (Failed err, to2, c2) \<Rightarrow> (Err err, to2, c2)
              | (Stuck, to2, c2) \<Rightarrow> (Hangs, to2, c2)
              | (Finished, to2, c2) \<Rightarrow> (Ok (take dataLen to2), to2, c2))))"

text \<open>\<^verbatim>\<open>writeData\<close>: the loop \<^verbatim>\<open>for written < len(data) { conn.Write(data[written:]) }\<close>.\<close>

function writeData_from :: "conn \<Rightarrow> byte list \<Rightarrow> nat \<Rightarrow> error option \<times> conn" where
  "writeData_from c data written =
     (if written < length data then
        (case conn_Write c (drop written data) of
           (Inl err, c') \<Rightarrow> (Some (Errorf ''%w: %w'' [] [ErrNetworkWriteError, err]), c')
         | (Inr n, c') \<Rightarrow> writeData_from c' data (written + n))
      else (None, c))"
  by pat_completeness auto
termination
  by (relation "measure (\<lambda>(c, data, written). length (conn_writes c))")
    (auto dest: conn_Write_size [OF sym])

declare writeData_from.simps [simp del]

definition writeData :: "conn \<Rightarrow> byte list \<Rightarrow> error option \<times> conn" where
  "writeData c data = writeData_from c data 0"

text \<open>
  \<^verbatim>\<open>writeFrame\<close> without its deferred call: what it returns and what it does to the
  connection. \<^verbatim>\<open>data[:2]\<close> panics on fewer than two bytes.
\<close>

definition writeFrame_body :: "env \<Rightarrow> session option \<Rightarrow> conn \<Rightarrow> frame \<Rightarrow> unit res \<times> conn" where
  "writeFrame_body E sess c f =
     (case sess of
        Some s \<Rightarrow>
          (case frameDataWithMargins E f (FrameOffset E) (FrameOverhead E) of
             Inl err \<Rightarrow>
               (Err (Errorf ''frame with margins %d,%d: %w'' [FrameOffset E, FrameOverhead E] [err]), c)
           | Inr data \<Rightarrow>
               (case linkFrameSeal E s data of
                  Inl err \<Rightarrow> (Err (Errorf ''seal link frame: %w'' [] [err]), c)
                | Inr sealed \<Rightarrow>
                    (case writeData c sealed of
                       (Some err, c') \<Rightarrow> (Err (Errorf ''write: %w'' [] [err]), c')
                     | (None, c') \<Rightarrow> (Ok (), c'))))
      | None \<Rightarrow>
          (case frameDataWithMargins E f 2 0 of
             Inl err \<Rightarrow> (Err (Errorf ''frame with margins 2,0: %w'' [] [err]), c)
           | Inr data \<Rightarrow>
               if length data > 0xFFFF
               then (Err (Errorf ''frame is too big (%d bytes)'' [length data] []), c)
               else if length data < 2 then (Panic, c)
               else
                 (case writeData c (PutUint16 data (length data)) of
                    (Some err, c') \<Rightarrow> (Err (Errorf ''write: %w'' [] [err]), c')
                  | (None, c') \<Rightarrow> (Ok (), c'))))"

text \<open>
  \<^verbatim>\<open>writeFrame\<close>: the body, then the deferred \<^verbatim>\<open>f.ReturnToPool()\<close>, which runs however the
  body ends.
\<close>

definition ReturnToPool :: "world \<Rightarrow> frame \<Rightarrow> world" where
  "ReturnToPool w f = w\<lparr>pool_returned := pool_returned w @ [f]\<rparr>"

definition writeFrame :: "env \<Rightarrow> world \<Rightarrow> frame \<Rightarrow> unit res \<times> world" where
  "writeFrame E w f =
     (case writeFrame_body E (encSession w) (conn w) f of
        (r, c') \<Rightarrow> (r, ReturnToPool (w\<lparr>conn := c'\<rparr>) f))"

text \<open>
  \<^verbatim>\<open>readFrame\<close>. The pool of byte slices is not followed. \<^verbatim>\<open>Unseal\<close> works in place: the
  parameter gives the bytes afterwards.
\<close>

definition SetRecvLink :: "world \<Rightarrow> frame \<Rightarrow> world" where
  "SetRecvLink w f = w\<lparr>recv_frames := recv_frames w @ [f]\<rparr>"

definition readFrame :: "env \<Rightarrow> world \<Rightarrow> frame res \<times> world" where
  "readFrame E w =
     (let pooledSlice = getPooledSlice E (frameSize w) in
      case readLengthAndData (conn w) pooledSlice of
        (Err err, to', c') \<Rightarrow> (Err (Errorf ''read frame: %w'' [] [err]), w\<lparr>conn := c'\<rparr>)
      | (Panic, to', c') \<Rightarrow> (Panic, w\<lparr>conn := c'\<rparr>)
      | (Hangs, to', c') \<Rightarrow> (Hangs, w\<lparr>conn := c'\<rparr>)
      | (Ok data, to', c') \<Rightarrow>
          (let w' = w\<lparr>conn := c'\<rparr> in
           case encSession w of
             Some s \<Rightarrow>
               (case linkFrameUnseal E s data of
                  Inl err \<Rightarrow> (Err (Errorf ''unseal link frame: %w'' [] [err]), w')
                | Inr lf \<Rightarrow>
                    (case parseFrame E (linkData E lf) (FrameOffset E) of
                       Inl err \<Rightarrow> (Err (Errorf ''parse frame (from link frame): %w'' [] [err]), w')
                     | Inr f \<Rightarrow> (Ok f, SetRecvLink w' f)))
           | None \<Rightarrow>
               (case parseFrame E (drop 2 data) 2 of
                  Inl err \<Rightarrow> (Err (Errorf ''parse frame: %w'' [] [err]), w')
                | Inr f \<Rightarrow> (Ok f, SetRecvLink w' f))))"

(*MODEL-END*)

section \<open>Concrete links for the examples\<close>

definition exampleConn :: conn where
  "exampleConn = \<lparr>conn_reads = [], conn_writes = [], conn_sent = [], conn_closed = False,
     conn_remote = TCPAddr [10, 0, 0, 1]\<rparr>"

definition exampleLink :: world where
  "exampleLink = newLinkBase (\<lambda>a. 1500) exampleConn True 1 Map.empty Map.empty"

text \<open>The example link with \<open>n\<close> frames waiting in its regular queue.\<close>

definition exampleLinkRegl :: "nat \<Rightarrow> world" where
  "exampleLinkRegl n = exampleLink\<lparr>sendQueueRegl := \<lparr>chan_buf = replicate n (Some 0), chan_cap = 1000\<rparr>\<rparr>"

section \<open>Send and SendPriority\<close>

lemma offer_buf:
  "chan_buf (offer x c) = (if length (chan_buf c) < chan_cap c then chan_buf c @ [x] else chan_buf c)"
  by (simp add: offer_def)

lemma offer_cap: "chan_cap (offer x c) = chan_cap c"
  by (simp add: offer_def)

lemma offer_full: "\<not> length (chan_buf c) < chan_cap c \<Longrightarrow> offer x c = c"
  by (simp add: offer_def)

text \<open>
  Claim C1, as the code has it. \<^verbatim>\<open>Send\<close> and \<^verbatim>\<open>SendPriority\<close> always return \<^verbatim>\<open>nil\<close> and
  change nothing but their own queue: with a free slot the frame is appended once, on a
  full queue the queue is left as it is. Neither touches the frame pool, so a dropped
  frame is not handed back to the pool by the link.
\<close>

theorem Send_offer_or_drop:
  "snd (Send w f) = None \<and> snd (SendPriority w f) = None \<and>
   fst (Send w f) = w\<lparr>sendQueueRegl := (sendQueueRegl w)\<lparr>chan_buf :=
       (if length (chan_buf (sendQueueRegl w)) < chan_cap (sendQueueRegl w)
        then chan_buf (sendQueueRegl w) @ [f] else chan_buf (sendQueueRegl w))\<rparr>\<rparr> \<and>
   fst (SendPriority w f) = w\<lparr>sendQueuePrio := (sendQueuePrio w)\<lparr>chan_buf :=
       (if length (chan_buf (sendQueuePrio w)) < chan_cap (sendQueuePrio w)
        then chan_buf (sendQueuePrio w) @ [f] else chan_buf (sendQueuePrio w))\<rparr>\<rparr> \<and>
   pool_returned (fst (Send w f)) = pool_returned w \<and>
   pool_returned (fst (SendPriority w f)) = pool_returned w"
  by (simp add: Send_def SendPriority_def offer_def)

theorem Send_offer_or_drop_witness:
  "chan_buf (sendQueueRegl (fst (Send exampleLink (Some 9)))) = [Some 9] \<and>
   chan_buf (sendQueuePrio (fst (Send exampleLink (Some 9)))) = [] \<and>
   chan_buf (sendQueueRegl (fst (Send (exampleLinkRegl 1000) (Some 9)))) = replicate 1000 (Some 0) \<and>
   pool_returned (fst (Send (exampleLinkRegl 1000) (Some 9))) = []"
  using Send_offer_or_drop [of exampleLink "Some 9"] Send_offer_or_drop [of "exampleLinkRegl 1000" "Some 9"]
  by (simp add: exampleLinkRegl_def exampleLink_def newLinkBase_def make_chan_def)

text \<open>
  The claim as written fails: frame 9 offered to a full regular queue is dropped, and
  after the call it is neither queued nor in the pool.
\<close>

theorem Send_dropped_frame_not_returned:
  "snd (Send (exampleLinkRegl 1000) (Some 9)) = None \<and>
   Some 9 \<notin> set (chan_buf (sendQueueRegl (fst (Send (exampleLinkRegl 1000) (Some 9))))) \<and>
   9 \<notin> set (pool_returned (fst (Send (exampleLinkRegl 1000) (Some 9))))"
  by (simp add: Send_def offer_def exampleLinkRegl_def exampleLink_def newLinkBase_def)

section \<open>Sending on a closing link\<close>

text \<open>
  Claim C2, as the code has it. The send entry points never read the closing flag: on a
  link where \<^verbatim>\<open>IsClosing()\<close> is true a frame is enqueued exactly when its queue has a free
  slot, the flag stays set, and \<^verbatim>\<open>Close\<close> leaves both queues as they are.
\<close>

theorem Send_ignores_closing:
  "chan_buf (sendQueueRegl (fst (Send (w\<lparr>closing := True\<rparr>) f))) =
     (if length (chan_buf (sendQueueRegl w)) < chan_cap (sendQueueRegl w)
      then chan_buf (sendQueueRegl w) @ [f] else chan_buf (sendQueueRegl w)) \<and>
   chan_buf (sendQueuePrio (fst (SendPriority (w\<lparr>closing := True\<rparr>) f))) =
     (if length (chan_buf (sendQueuePrio w)) < chan_cap (sendQueuePrio w)
      then chan_buf (sendQueuePrio w) @ [f] else chan_buf (sendQueuePrio w)) \<and>
   IsClosing (fst (Send (w\<lparr>closing := True\<rparr>) f)) \<and>
   IsClosing (fst (SendPriority (w\<lparr>closing := True\<rparr>) f)) \<and>
   IsClosing (Close w) \<and>
   sendQueueRegl (Close w) = sendQueueRegl w \<and> sendQueuePrio (Close w) = sendQueuePrio w"
  by (simp add: Send_def SendPriority_def offer_def IsClosing_def Close_def RemoveLink_def Let_def)

theorem Send_ignores_closing_witness:
  "chan_buf (sendQueuePrio (fst (SendPriority (exampleLink\<lparr>closing := True\<rparr>) (Some 5)))) = [Some 5] \<and>
   IsClosing (fst (SendPriority (exampleLink\<lparr>closing := True\<rparr>) (Some 5)))"
  using Send_ignores_closing [of exampleLink "Some 5"]
  by (simp add: exampleLink_def newLinkBase_def make_chan_def)

text \<open>
  The claim as written fails: the example link is closed, \<^verbatim>\<open>IsClosing()\<close> is true, and
  \<^verbatim>\<open>Send\<close> still enqueues frame 5.
\<close>

theorem Send_enqueues_on_closing_link:
  "IsClosing (Close exampleLink) \<and>
   chan_buf (sendQueueRegl (fst (Send (Close exampleLink) (Some 5)))) = [Some 5]"
  by (simp add: Send_def offer_def exampleLink_def newLinkBase_def Close_def IsClosing_def
      RemoveLink_def Let_def make_chan_def)

section \<open>The flow-control indicator\<close>

text \<open>
  Claim C6, as the code has it. The indicator reads the regular queue only. With
  \<open>n\<close> frames queued out of \<open>c > 0\<close> slots it is \<^verbatim>\<open>DecreaseFlow\<close> when \<open>n / c \<ge> 70%\<close>,
  \<^verbatim>\<open>HoldFlow\<close> when \<open>n / c \<ge> 30%\<close> and \<^verbatim>\<open>IncreaseFlow\<close> below; the priority queue has no
  influence.
\<close>

theorem FlowControlIndicator_thresholds:
  assumes "0 < chan_cap (sendQueueRegl w)"
  shows "FlowControlIndicator w =
     Ok (if 70 * chan_cap (sendQueueRegl w) \<le> 100 * length (chan_buf (sendQueueRegl w))
           then FlowControlFlagDecreaseFlow
         else if 30 * chan_cap (sendQueueRegl w) \<le> 100 * length (chan_buf (sendQueueRegl w))
           then FlowControlFlagHoldFlow
         else FlowControlFlagIncreaseFlow) \<and>
     FlowControlIndicator (w\<lparr>sendQueuePrio := q\<rparr>) = FlowControlIndicator w"
proof -
  let ?c = "chan_cap (sendQueueRegl w)" and ?n = "length (chan_buf (sendQueueRegl w))"
  have a: "(70 \<le> ?n * 100 div ?c) = (70 * ?c \<le> 100 * ?n)"
    using assms by (simp add: less_eq_div_iff_mult_less_eq mult.commute)
  have b: "(30 \<le> ?n * 100 div ?c) = (30 * ?c \<le> 100 * ?n)"
    using assms by (simp add: less_eq_div_iff_mult_less_eq mult.commute)
  show ?thesis using assms a b by (simp add: FlowControlIndicator_def Let_def)
qed

text \<open>On the 1000-slot queue: 700 frames, then 200, then 10.\<close>

theorem FlowControlIndicator_thresholds_witness:
  "FlowControlIndicator (exampleLinkRegl 700) = Ok FlowControlFlagDecreaseFlow \<and>
   FlowControlIndicator (exampleLinkRegl 300) = Ok FlowControlFlagHoldFlow \<and>
   FlowControlIndicator (exampleLinkRegl 200) = Ok FlowControlFlagIncreaseFlow \<and>
   FlowControlIndicator (exampleLinkRegl 10) = Ok FlowControlFlagIncreaseFlow"
  using FlowControlIndicator_thresholds [of "exampleLinkRegl 700"]
    FlowControlIndicator_thresholds [of "exampleLinkRegl 300"]
    FlowControlIndicator_thresholds [of "exampleLinkRegl 200"]
    FlowControlIndicator_thresholds [of "exampleLinkRegl 10"]
  by (simp add: exampleLinkRegl_def)

text \<open>
  The claim as written fails at its second figure: with 200 of 1000 slots taken the fill
  is 20%, below the 30% threshold, and the indicator is \<^verbatim>\<open>IncreaseFlow\<close>, not \<^verbatim>\<open>HoldFlow\<close>.
\<close>

theorem FlowControlIndicator_200_not_hold:
  "FlowControlIndicator (exampleLinkRegl 200) \<noteq> Ok FlowControlFlagHoldFlow"
  by (simp add: FlowControlIndicator_def exampleLinkRegl_def)

section \<open>The fallback latency\<close>

lemmas ip_defs = IsGlobalUnicast_def IsPrivate_def To4_def ip_Equal_def
  IsUnspecified_def IsLoopback_def IsMulticast_def IsLinkLocalUnicast_def IPv4bcast_def
  IPv4zero_def IPv6unspecified_def IPv6loopback_def IPv4_def v4InV6Prefix_def

lemma length_4_bytes: "length (a::byte list) = 4 \<Longrightarrow> \<exists>p q r s. a = [p, q, r, s]"
  by (cases a; simp; cases "tl a"; simp; cases "tl (tl a)"; simp; cases "tl (tl (tl a))"; simp)

lemma differs_at: "a ! i \<noteq> c ! i \<Longrightarrow> a \<noteq> c"
  by auto

lemma IsPrivate_v4:
  assumes l: "length a = 4" and p: "IsPrivate a"
  shows "IsGlobalUnicast a"
proof -
  from length_4_bytes [OF l] obtain p q r s where a: "a = [p, q, r, s]" by blast
  show ?thesis using p unfolding a by (auto simp: ip_defs)
qed

lemma IsPrivate_v4_mapped:
  assumes l: "length a = 16" and t: "To4 a = Some b" and p: "IsPrivate a"
  shows "IsGlobalUnicast a"
proof -
  have b: "b = drop 12 a" and a10: "a ! 10 = 0xff"
    using t l by (auto simp: To4_def split: if_splits)
  have b0: "b ! 0 = a ! 12" "b ! 1 = a ! 13" using l b by simp_all
  have p': "a ! 12 = 10 \<or> (a ! 12 = 172 \<and> a ! 13 AND 0xf0 = 16) \<or> (a ! 12 = 192 \<and> a ! 13 = 168)"
    using p t b0 by (simp add: IsPrivate_def)
  have n1: "a \<noteq> IPv4bcast" using p' by (intro differs_at [where i = 12]) (auto simp: ip_defs)
  have n2: "a \<noteq> IPv4zero" using p' by (intro differs_at [where i = 12]) (auto simp: ip_defs)
  have n3: "a \<noteq> IPv6unspecified" using a10 by (intro differs_at [where i = 10]) (auto simp: ip_defs)
  have l2: "length IPv4bcast = 16" "length IPv4zero = 16" "length IPv6unspecified = 16"
    by (simp_all add: ip_defs)
  show ?thesis using l t p' n1 n2 n3 l2 b0
    by (auto simp: IsGlobalUnicast_def ip_Equal_def IsUnspecified_def IsLoopback_def
        IsMulticast_def IsLinkLocalUnicast_def)
qed

lemma IsPrivate_v6:
  assumes t: "To4 a = None" and p: "IsPrivate a"
  shows "IsGlobalUnicast a"
proof -
  have l: "length a = 16" and p': "a ! 0 AND 0xfe = 0xfc"
    using p t by (simp_all add: IsPrivate_def)
  have n1: "a \<noteq> IPv4bcast" using p' by (intro differs_at [where i = 0]) (auto simp: ip_defs)
  have n2: "a \<noteq> IPv4zero" using p' by (intro differs_at [where i = 0]) (auto simp: ip_defs)
  have n3: "a \<noteq> IPv6unspecified" using p' by (intro differs_at [where i = 0]) (auto simp: ip_defs)
  have n4: "a \<noteq> IPv6loopback" using p' by (intro differs_at [where i = 0]) (auto simp: ip_defs)
  have l2: "length IPv4bcast = 16" "length IPv4zero = 16" "length IPv6unspecified = 16"
    "length IPv6loopback = 16" by (simp_all add: ip_defs)
  have n5: "a ! 0 \<noteq> 0xff" "a ! 0 \<noteq> 0xfe" using p' by auto
  show ?thesis using l t n1 n2 n3 n4 n5 l2
    by (auto simp: IsGlobalUnicast_def ip_Equal_def IsUnspecified_def IsLoopback_def
        IsMulticast_def IsLinkLocalUnicast_def)
qed

text \<open>Every address \<^verbatim>\<open>IsPrivate\<close> accepts, \<^verbatim>\<open>IsGlobalUnicast\<close> accepts too.\<close>

lemma IsPrivate_IsGlobalUnicast: "IsPrivate a \<Longrightarrow> IsGlobalUnicast a"
proof (cases "To4 a")
  case None
  assume "IsPrivate a"
  then show ?thesis using None IsPrivate_v6 by blast
next
  case (Some b)
  assume p: "IsPrivate a"
  show ?thesis
  proof (cases "length a = 4")
    case True
    then show ?thesis using p IsPrivate_v4 by blast
  next
    case False
    then have "length a = 16" using Some by (auto simp: To4_def split: if_splits)
    then show ?thesis using Some p IsPrivate_v4_mapped by blast
  qed
qed

text \<open>
  Claim C7 on the code. The switch of \<^verbatim>\<open>getFallbackLatency\<close> asks \<^verbatim>\<open>IsGlobalUnicast\<close> before
  \<^verbatim>\<open>IsPrivate\<close>, and Go's \<^verbatim>\<open>IsGlobalUnicast\<close> is true of private addresses: a link to
  10.0.0.1 or to 192.168.1.7 is seeded with 20 ms, a link to 127.0.0.1 with 10 ms, a
  link to 8.8.8.8 and one over a non-IP address with 20 ms, and no remote address at all
  is seeded with 5 ms.
\<close>

theorem getFallbackLatency_private_gets_20:
  "getFallbackLatency (TCPAddr [10, 0, 0, 1]) = 20 \<and>
   getFallbackLatency (UDPAddr (IPv4 192 168 1 7)) = 20 \<and>
   getFallbackLatency (TCPAddr [127, 0, 0, 1]) = 10 \<and>
   getFallbackLatency (TCPAddr [8, 8, 8, 8]) = 20 \<and>
   getFallbackLatency OtherAddr = 20 \<and>
   latency (newLinkBase calcFrameSize exampleConn out lid byPeer byLabel) = 20 \<and>
   (\<forall>addr. getFallbackLatency addr \<noteq> 5)"
proof -
  have "\<forall>addr. getFallbackLatency addr \<noteq> 5"
    using IsPrivate_IsGlobalUnicast by (auto simp: getFallbackLatency_def split: net_Addr.splits)
  moreover have "getFallbackLatency (TCPAddr [10, 0, 0, 1]) = 20"
    by (simp add: getFallbackLatency_def ip_defs)
  moreover have "getFallbackLatency (UDPAddr (IPv4 192 168 1 7)) = 20"
    by (simp add: getFallbackLatency_def ip_defs)
  moreover have "getFallbackLatency (TCPAddr [127, 0, 0, 1]) = 10"
    by (simp add: getFallbackLatency_def ip_defs)
  moreover have "getFallbackLatency (TCPAddr [8, 8, 8, 8]) = 20"
    by (simp add: getFallbackLatency_def ip_defs)
  moreover have "getFallbackLatency OtherAddr = 20"
    by (simp add: getFallbackLatency_def)
  ultimately show ?thesis
    by (simp add: newLinkBase_def exampleConn_def)
qed

end
